theory Spec2Isabelle
  imports Complex_Main "HOL-Library.Mapping" "HOL-Library.AList_Mapping"
begin

section \<open>Python strings\<close>

text \<open>
  A Python \<open>str\<close> is a sequence of Unicode code points; \<open>len\<close> counts code points.
  A string is therefore a list of code point numbers. \<open>cps\<close> reads an ASCII literal as
  such a list, so that \<open>cps ''hi''\<close> is \<open>[104, 105]\<close>.

  Python's floats are modelled as exact reals: no rounding, no infinities, no NaN.
\<close>

type_synonym pystr = "nat list"

definition cps :: "string \<Rightarrow> pystr" where
  "cps s = map of_char s"

text \<open>
  \<open>str.isspace\<close> on one code point, which is what \<open>strip()\<close> and \<open>split()\<close> without
  arguments test: the ASCII controls 9 to 13 and 28 to 31, the space, and the Unicode
  white space U+0085, U+00A0, U+1680, U+2000 to U+200A, U+2028, U+2029, U+202F, U+205F,
  U+3000.
\<close>

definition isspace :: "nat \<Rightarrow> bool" where
  "isspace c \<longleftrightarrow>
     (9 \<le> c \<and> c \<le> 13) \<or> (28 \<le> c \<and> c \<le> 32) \<or> c = 133 \<or> c = 160 \<or> c = 5760
     \<or> (8192 \<le> c \<and> c \<le> 8202) \<or> c = 8232 \<or> c = 8233 \<or> c = 8239 \<or> c = 8287
     \<or> c = 12288"

definition strip :: "pystr \<Rightarrow> pystr" where
  "strip s = rev (dropWhile isspace (rev (dropWhile isspace s)))"

text \<open>
  \<open>s.replace(old, "")\<close> for a one-character \<open>old\<close>: every occurrence is deleted.
\<close>

definition replace_empty :: "nat \<Rightarrow> pystr \<Rightarrow> pystr" where
  "replace_empty old s = filter (\<lambda>c. c \<noteq> old) s"

text \<open>
  \<open>s.split()\<close>: the maximal runs of non-space characters, in order. \<open>w\<close> is the run
  being read.
\<close>

fun split_from :: "pystr \<Rightarrow> pystr \<Rightarrow> pystr list" where
  "split_from w [] = (if w = [] then [] else [w])"
| "split_from w (c # cs) =
     (if isspace c then (if w = [] then split_from [] cs else w # split_from [] cs)
      else split_from (w @ [c]) cs)"

definition split :: "pystr \<Rightarrow> pystr list" where
  "split s = split_from [] s"

text \<open>
  \<open>str.lower\<close> applies the Unicode case tables, which are not part of the repository:
  the functions below take it as the parameter \<open>lower\<close>. \<open>lower_latin1\<close> is \<open>str.lower\<close>
  on strings whose code points are all below 256 (A to Z, and U+00C0 to U+00DE except
  the multiplication sign, move up by 32), used where a concrete input is evaluated.
\<close>

definition lower_latin1 :: "pystr \<Rightarrow> pystr" where
  "lower_latin1 s =
     map (\<lambda>c. if (65 \<le> c \<and> c \<le> 90) \<or> (192 \<le> c \<and> c \<le> 222 \<and> c \<noteq> 215) then c + 32 else c) s"

section \<open>The string metrics of the jellyfish library\<close>

text \<open>
  \<open>jellyfish.levenshtein_distance\<close>: the two-row dynamic program. \<open>lev_row\<close> fills one
  row: \<open>ch\<close> is the character of the first string for this row, the third argument is
  the previous row from the column to the left on, and \<open>left\<close> is the cell just written.
\<close>

fun lev_row :: "nat \<Rightarrow> pystr \<Rightarrow> nat list \<Rightarrow> nat \<Rightarrow> nat list" where
  "lev_row ch (y # ys) (d # p # ps) left =
     (let v = min (d + (if ch = y then 0 else 1)) (min (p + 1) (left + 1))
      in v # lev_row ch ys (p # ps) v)"
| "lev_row ch _ _ left = []"

fun lev_rows :: "pystr \<Rightarrow> pystr \<Rightarrow> nat \<Rightarrow> nat list \<Rightarrow> nat list" where
  "lev_rows [] s2 r cur = cur"
| "lev_rows (x # xs) s2 r cur = lev_rows xs s2 (Suc r) (Suc r # lev_row x s2 cur (Suc r))"

definition levenshtein_distance :: "pystr \<Rightarrow> pystr \<Rightarrow> nat" where
  "levenshtein_distance s1 s2 =
     (if s1 = s2 then 0
      else if s1 = [] then length s2
      else if s2 = [] then length s1
      else last (lev_rows s1 s2 0 [0..<Suc (length s2)]))"

text \<open>
  \<open>jellyfish.jaro_winkler_similarity\<close>. The scorer takes the similarity as the parameter
  \<open>jw\<close>, since the library is not part of the repository; the definition below is the
  library's algorithm, used where a concrete input is evaluated. \<open>jaro_match\<close> is the
  flagging loop: for the character at index \<open>i\<close> of the first string, the first unflagged
  equal character of the second string within the search range is flagged.
\<close>

fun jaro_match :: "pystr \<Rightarrow> pystr \<Rightarrow> nat \<Rightarrow> nat \<Rightarrow> bool list \<Rightarrow> bool list \<times> bool list" where
  "jaro_match [] s2 i search_range s2_flags = ([], s2_flags)"
| "jaro_match (ch # cs) s2 i search_range s2_flags =
     (case find (\<lambda>j. \<not> s2_flags ! j \<and> s2 ! j = ch)
             [i - search_range ..< Suc (min (i + search_range) (length s2 - 1))] of
        None \<Rightarrow>
          (let (f1, f2) = jaro_match cs s2 (Suc i) search_range s2_flags in (False # f1, f2))
      | Some j \<Rightarrow>
          (let (f1, f2) = jaro_match cs s2 (Suc i) search_range (s2_flags[j := True])
           in (True # f1, f2)))"

definition flagged :: "pystr \<Rightarrow> bool list \<Rightarrow> pystr" where
  "flagged s flags = map fst (filter snd (zip s flags))"

definition jaro_winkler_similarity :: "pystr \<Rightarrow> pystr \<Rightarrow> real" where
  "jaro_winkler_similarity s1 s2 =
     (if s1 = [] \<or> s2 = [] then 0
      else
        let min_len = min (length s1) (length s2);
            search_range = max (length s1) (length s2) div 2 - 1;
            (s1_flags, s2_flags) = jaro_match s1 s2 0 search_range (replicate (length s2) False);
            common_chars = length (filter id s1_flags)
        in if common_chars = 0 then 0
           else
             let trans_count =
                   length (filter (\<lambda>(a, b). a \<noteq> b) (zip (flagged s1 s1_flags) (flagged s2 s2_flags)))
                     div 2;
                 weight = (real common_chars / real (length s1)
                           + real common_chars / real (length s2)
                           + (real common_chars - real trans_count) / real common_chars) / 3
             in if weight > 7 / 10
                then
                  let i = length (takeWhile (\<lambda>(a, b). a = b) (take (min min_len 4) (zip s1 s2)))
                  in weight + real i * (1 / 10) * (1 - weight)
                else weight)"

section \<open>Feature extraction\<close>

text \<open>
  A feature map is a Python dict from feature names to floats: a \<open>mapping\<close>, on which
  \<open>Mapping.lookup_default d m k\<close> is \<open>m.get(k, d)\<close> and \<open>Mapping.is_empty m\<close> is
  \<open>not m\<close>. The audio library
  (\<open>librosa.load\<close>, and the mean over the frames of \<open>librosa.feature.rms\<close>,
  \<open>spectral_centroid\<close> and \<open>zero_crossing_rate\<close>, converted by \<open>float\<close>) is not part of the
  repository: \<open>extract_audio_features\<close> takes it as a record of functions, each
  returning its value or the exception (an instance of \<open>Exception\<close>, with its message)
  that the call raises.
\<close>

type_synonym features = "(string, real) mapping"

datatype py_exception = PyException string

record audio_lib =
  load :: "string \<Rightarrow> nat \<Rightarrow> py_exception + (real list \<times> nat)"
  rms_mean :: "real list \<Rightarrow> py_exception + real"
  spectral_centroid_mean :: "real list \<Rightarrow> nat \<Rightarrow> py_exception + real"
  zero_crossing_rate_mean :: "real list \<Rightarrow> py_exception + real"

text \<open>
  The body of the \<open>try\<close> block: the first call that raises ends it with that exception.
  The dict display evaluates its values in the order written.
\<close>

definition extract_audio_features_try :: "audio_lib \<Rightarrow> string \<Rightarrow> py_exception + features" where
  "extract_audio_features_try lib audio_path =
     (case load lib audio_path 16000 of
        Inl e \<Rightarrow> Inl e
      | Inr (y, sr) \<Rightarrow>
          (case rms_mean lib y of
             Inl e \<Rightarrow> Inl e
           | Inr rms \<Rightarrow>
               (case spectral_centroid_mean lib y sr of
                  Inl e \<Rightarrow> Inl e
                | Inr centroid \<Rightarrow>
                    (case zero_crossing_rate_mean lib y of
                       Inl e \<Rightarrow> Inl e
                     | Inr zcr \<Rightarrow>
                         Inr (Mapping.update ''zcr'' zcr
                               (Mapping.update ''spectral_centroid'' centroid
                                 (Mapping.update ''rms_energy'' rms Mapping.empty)))))))"

text \<open>
  The function itself: the result is what it prints and either the map it returns
  (\<open>Inr\<close>) or the exception it raises to its caller (\<open>Inl\<close>). The handler
  \<open>except Exception\<close> catches every exception of the body, prints it and returns \<open>{}\<close>.
\<close>

definition extract_audio_features :: "audio_lib \<Rightarrow> string \<Rightarrow> string list \<times> (py_exception + features)" where
  "extract_audio_features lib audio_path =
     (case extract_audio_features_try lib audio_path of
        Inr features \<Rightarrow> ([], Inr features)
      | Inl (PyException msg) \<Rightarrow> ([''Feature extraction error: '' @ msg], Inr Mapping.empty))"

section \<open>Prosody feedback\<close>

definition analyze_prosody :: "features \<Rightarrow> pystr \<Rightarrow> string list" where
  "analyze_prosody features target_text =
     (let feedback = [];
          expected_duration = real (length target_text) / 12;
          actual_duration = Mapping.lookup_default 0 features ''duration'';
          feedback =
            (if actual_duration > expected_duration * (3 / 2)
             then feedback @ [''Try speaking a bit faster for more natural rhythm'']
             else if actual_duration < expected_duration * (6 / 10)
             then feedback @ [''Slow down slightly to improve clarity and enunciation'']
             else feedback);
          rms_energy = Mapping.lookup_default 0 features ''rms_energy'';
          feedback =
            (if rms_energy < 1 / 100
             then feedback @ [''Speak with more volume and confidence'']
             else if rms_energy > 2 / 10
             then feedback @ [''Try to moderate your volume slightly'']
             else feedback);
          zcr = Mapping.lookup_default 0 features ''zcr'';
          feedback =
            (if zcr > 15 / 100
             then feedback @ [''Focus on clear articulation of consonants'']
             else feedback)
      in feedback)"

section \<open>The score\<close>

text \<open>
  The local variables of \<open>calculate_advanced_score\<close>, one definition each.
  \<open>normalized\<close> is \<open>s.lower().strip()\<close>; \<open>words\<close> is the chain of four \<open>replace\<close>
  calls (apostrophe, question mark, comma, inverted question mark U+00BF) followed by
  \<open>split()\<close>.
\<close>

definition normalized :: "(pystr \<Rightarrow> pystr) \<Rightarrow> pystr \<Rightarrow> pystr" where
  "normalized lower s = strip (lower s)"

definition words :: "pystr \<Rightarrow> pystr list" where
  "words s = split (replace_empty 191 (replace_empty 44 (replace_empty 63 (replace_empty 39 s))))"

text \<open>
  \<open>len(set(target_words).intersection(set(transcribed_words))) / len(target_words) * 100\<close>:
  the denominator is the length of the word list, repeated words included. The source
  evaluates it only after the guard \<open>if not target_words: return 0\<close>, so the divisor is
  positive wherever the function is used.
\<close>

definition word_score :: "pystr list \<Rightarrow> pystr list \<Rightarrow> real" where
  "word_score target_words transcribed_words =
     real (card (set target_words \<inter> set transcribed_words)) / real (length target_words) * 100"

definition lev_score :: "pystr \<Rightarrow> pystr \<Rightarrow> real" where
  "lev_score target_lower transcription_lower =
     (let lev_distance = levenshtein_distance target_lower transcription_lower;
          max_len = max (length target_lower) (length transcription_lower)
      in if max_len > 0 then (1 - real lev_distance / real max_len) * 100 else 0)"

text \<open>\<open>if audio_features:\<close> holds for a dict with at least one key.\<close>

definition prosody_score :: "pystr \<Rightarrow> features \<Rightarrow> real" where
  "prosody_score target_text audio_features =
     (if \<not> Mapping.is_empty audio_features
      then
        let expected_duration = real (length target_text) / 12;
            actual_duration = Mapping.lookup_default expected_duration audio_features ''duration'';
            duration_ratio =
              (if expected_duration > 0 then actual_duration / expected_duration else 1)
        in if duration_ratio > 3 / 2 \<or> duration_ratio < 6 / 10 then 85
           else if duration_ratio > 13 / 10 \<or> duration_ratio < 7 / 10 then 90
           else 100
      else 100)"

text \<open>\<open>int(x)\<close> on a float: truncation towards zero.\<close>

definition py_int :: "real \<Rightarrow> int" where
  "py_int x = (if x \<ge> 0 then \<lfloor>x\<rfloor> else \<lceil>x\<rceil>)"

definition final_score ::
  "(pystr \<Rightarrow> pystr \<Rightarrow> real) \<Rightarrow> pystr \<Rightarrow> pystr \<Rightarrow> pystr \<Rightarrow> features \<Rightarrow> real" where
  "final_score jw target_text target_lower transcription_lower audio_features =
     word_score (words target_lower) (words transcription_lower) * (40 / 100)
     + jw target_lower transcription_lower * 100 * (25 / 100)
     + lev_score target_lower transcription_lower * (20 / 100)
     + prosody_score target_text audio_features * (15 / 100)"

definition calculate_advanced_score ::
  "(pystr \<Rightarrow> pystr) \<Rightarrow> (pystr \<Rightarrow> pystr \<Rightarrow> real) \<Rightarrow> pystr \<Rightarrow> pystr \<Rightarrow> features \<Rightarrow> int" where
  "calculate_advanced_score lower jw target_text transcription audio_features =
     (let target_lower = normalized lower target_text;
          transcription_lower = normalized lower transcription
      in if target_lower = transcription_lower then 100
         else if words target_lower = [] then 0
         else min (py_int (final_score jw target_text target_lower transcription_lower
                             audio_features)) 100)"

section \<open>Concrete inputs\<close>

text \<open>
  The target \<open>\<questiondown>C\<oacute>mo est\<aacute>s hoy?\<close> (U+00BF, U+00F3 and U+00E1 written as code points)
  and the transcription \<open>como estas hoy\<close>.
\<close>

definition como_estas_target :: pystr where
  "como_estas_target = [191] @ cps ''C'' @ [243] @ cps ''mo est'' @ [225] @ cps ''s hoy?''"

definition como_estas_transcription :: pystr where
  "como_estas_transcription = cps ''como estas hoy''"

text \<open>An audio library on which every file is unreadable, and one on which every call succeeds.\<close>

definition unreadable_lib :: audio_lib where
  "unreadable_lib =
     \<lparr>load = (\<lambda>audio_path sr. Inl (PyException ''No such file or directory'')),
      rms_mean = (\<lambda>y. Inr (1 / 10)),
      spectral_centroid_mean = (\<lambda>y sr. Inr 1500),
      zero_crossing_rate_mean = (\<lambda>y. Inr (5 / 100))\<rparr>"

definition readable_lib :: audio_lib where
  "readable_lib =
     \<lparr>load = (\<lambda>audio_path sr. Inr ([0, 1 / 2, - 1 / 2], sr)),
      rms_mean = (\<lambda>y. Inr (1 / 10)),
      spectral_centroid_mean = (\<lambda>y sr. Inr 1500),
      zero_crossing_rate_mean = (\<lambda>y. Inr (5 / 100))\<rparr>"

text \<open>The hints of \<open>analyze_prosody\<close>, by the signal that triggers them.\<close>

definition rate_hints :: "string set" where
  "rate_hints = {''Try speaking a bit faster for more natural rhythm'',
                 ''Slow down slightly to improve clarity and enunciation''}"

definition volume_hints :: "string set" where
  "volume_hints = {''Speak with more volume and confidence'',
                   ''Try to moderate your volume slightly''}"

definition articulation_hints :: "string set" where
  "articulation_hints = {''Focus on clear articulation of consonants''}"

section \<open>The Levenshtein distance\<close>

text \<open>
  An invariant \<open>Q row column value\<close> of the cells that holds on the first row and the
  first column and is kept by the recurrence holds on every row the program builds.
\<close>

lemma lev_row_length:
  "length prev = Suc (length ys) \<Longrightarrow> length (lev_row ch ys prev left) = length ys"
  by (induction ch ys prev left rule: lev_row.induct) (auto simp: Let_def)

lemma lev_row_inv:
  assumes "length prev = Suc (length ys)"
    and "\<forall>k \<le> length ys. P (c0 + k) (prev ! k)"
    and "Q c0 left"
    and "\<And>k d p l. k < length ys \<Longrightarrow> P (c0 + k) d \<Longrightarrow> P (Suc (c0 + k)) p \<Longrightarrow> Q (c0 + k) l \<Longrightarrow>
           Q (Suc (c0 + k)) (min (d + (if ch = ys ! k then 0 else 1)) (min (p + 1) (l + 1)))"
  shows "\<forall>k < length ys. Q (Suc (c0 + k)) (lev_row ch ys prev left ! k)"
  using assms
proof (induction ys arbitrary: prev left c0)
  case Nil
  then show ?case by simp
next
  case (Cons y ys)
  from Cons.prems(1) obtain d p ps where prev: "prev = d # p # ps"
    by (cases prev; cases "tl prev") auto
  define v where "v = min (d + (if ch = y then 0 else 1)) (min (p + 1) (left + 1))"
  have row: "lev_row ch (y # ys) prev left = v # lev_row ch ys (p # ps) v"
    by (simp add: prev v_def Let_def)
  have Pd: "P c0 d" using Cons.prems(2) prev by (auto dest: spec [of _ 0])
  have Pp: "P (Suc c0) p" using Cons.prems(2) prev by (auto dest: spec [of _ 1])
  have Qv: "Q (Suc c0) v"
    using Cons.prems(4) [of 0 d p left] Pd Pp Cons.prems(3) by (simp add: v_def)
  have len: "length (p # ps) = Suc (length ys)" using Cons.prems(1) prev by simp
  have Pk: "\<forall>k \<le> length ys. P (Suc c0 + k) ((p # ps) ! k)"
  proof (intro allI impI)
    fix k assume "k \<le> length ys"
    then have "P (c0 + Suc k) (prev ! Suc k)" using Cons.prems(2) [rule_format, of "Suc k"] by simp
    then show "P (Suc c0 + k) ((p # ps) ! k)" by (simp add: prev)
  qed
  have step: "\<And>k d p l. k < length ys \<Longrightarrow> P (Suc c0 + k) d \<Longrightarrow> P (Suc (Suc c0 + k)) p \<Longrightarrow>
      Q (Suc c0 + k) l \<Longrightarrow>
      Q (Suc (Suc c0 + k)) (min (d + (if ch = ys ! k then 0 else 1)) (min (p + 1) (l + 1)))"
    using Cons.prems(4) [of "Suc _"] by simp
  have IH: "\<forall>k < length ys. Q (Suc (Suc c0 + k)) (lev_row ch ys (p # ps) v ! k)"
    using Cons.IH [OF len Pk Qv step] by simp
  show ?case
  proof (intro allI impI)
    fix k assume k: "k < length (y # ys)"
    show "Q (Suc (c0 + k)) (lev_row ch (y # ys) prev left ! k)"
    proof (cases k)
      case 0
      then show ?thesis using Qv by (simp add: row)
    next
      case (Suc k')
      then show ?thesis using IH k by (simp add: row)
    qed
  qed
qed

lemma lev_rows_inv:
  assumes "length cur = Suc (length s2)"
    and "\<forall>c \<le> length s2. Q r0 c (cur ! c)"
    and "\<And>r. Q (Suc r) 0 (Suc r)"
    and "\<And>i c d p l. i < length xs \<Longrightarrow> c < length s2 \<Longrightarrow> Q (r0 + i) c d \<Longrightarrow>
           Q (r0 + i) (Suc c) p \<Longrightarrow> Q (Suc (r0 + i)) c l \<Longrightarrow>
           Q (Suc (r0 + i)) (Suc c)
             (min (d + (if xs ! i = s2 ! c then 0 else 1)) (min (p + 1) (l + 1)))"
  shows "length (lev_rows xs s2 r0 cur) = Suc (length s2)
         \<and> (\<forall>c \<le> length s2. Q (r0 + length xs) c (lev_rows xs s2 r0 cur ! c))"
  using assms
proof (induction xs arbitrary: r0 cur)
  case Nil
  then show ?case by simp
next
  case (Cons x xs)
  define nxt where "nxt = Suc r0 # lev_row x s2 cur (Suc r0)"
  have len: "length nxt = Suc (length s2)"
    by (simp add: nxt_def lev_row_length Cons.prems(1))
  have row: "\<forall>k < length s2. Q (Suc r0) (Suc (0 + k)) (lev_row x s2 cur (Suc r0) ! k)"
  proof (rule lev_row_inv [where P = "Q r0"])
    show "length cur = Suc (length s2)" by (rule Cons.prems(1))
    show "\<forall>k \<le> length s2. Q r0 (0 + k) (cur ! k)" using Cons.prems(2) by simp
    show "Q (Suc r0) 0 (Suc r0)" by (rule Cons.prems(3))
    show "\<And>k d p l. k < length s2 \<Longrightarrow> Q r0 (0 + k) d \<Longrightarrow> Q r0 (Suc (0 + k)) p \<Longrightarrow>
        Q (Suc r0) (0 + k) l \<Longrightarrow>
        Q (Suc r0) (Suc (0 + k)) (min (d + (if x = s2 ! k then 0 else 1)) (min (p + 1) (l + 1)))"
      using Cons.prems(4) [of 0] by simp
  qed
  have inv: "\<forall>c \<le> length s2. Q (Suc r0) c (nxt ! c)"
  proof (intro allI impI)
    fix c assume c: "c \<le> length s2"
    show "Q (Suc r0) c (nxt ! c)"
    proof (cases c)
      case 0
      then show ?thesis using Cons.prems(3) by (simp add: nxt_def)
    next
      case (Suc k)
      then show ?thesis using row c by (simp add: nxt_def)
    qed
  qed
  have step: "\<And>i c d p l. i < length xs \<Longrightarrow> c < length s2 \<Longrightarrow> Q (Suc r0 + i) c d \<Longrightarrow>
      Q (Suc r0 + i) (Suc c) p \<Longrightarrow> Q (Suc (Suc r0 + i)) c l \<Longrightarrow>
      Q (Suc (Suc r0 + i)) (Suc c)
        (min (d + (if xs ! i = s2 ! c then 0 else 1)) (min (p + 1) (l + 1)))"
    using Cons.prems(4) [of "Suc _"] by simp
  have "length (lev_rows xs s2 (Suc r0) nxt) = Suc (length s2)
        \<and> (\<forall>c \<le> length s2. Q (Suc r0 + length xs) c (lev_rows xs s2 (Suc r0) nxt ! c))"
    by (rule Cons.IH [OF len inv Cons.prems(3) step])
  then show ?case by (simp add: nxt_def)
qed

lemma last_row: "length xs = Suc n \<Longrightarrow> last xs = xs ! n"
  by (cases xs rule: rev_cases) (auto simp: nth_append)

lemma lev_init_row: "c \<le> n \<Longrightarrow> [0..<Suc n] ! c = c"
  by (metis add_0 le_imp_less_Suc nth_upt)

lemma levenshtein_distance_le_max:
  "levenshtein_distance s1 s2 \<le> max (length s1) (length s2)"
proof -
  have "length (lev_rows s1 s2 0 [0..<Suc (length s2)]) = Suc (length s2)
        \<and> (\<forall>c \<le> length s2. lev_rows s1 s2 0 [0..<Suc (length s2)] ! c \<le> max (0 + length s1) c)"
  proof (rule lev_rows_inv [where Q = "\<lambda>r c v. v \<le> max r c"])
    show "length [0..<Suc (length s2)] = Suc (length s2)" by simp
    show "\<forall>c \<le> length s2. [0..<Suc (length s2)] ! c \<le> max 0 c"
      by (simp add: lev_init_row del: upt_Suc)
    show "\<And>r. Suc r \<le> max (Suc r) 0" by simp
    show "\<And>i c d p l. i < length s1 \<Longrightarrow> c < length s2 \<Longrightarrow> d \<le> max (0 + i) c \<Longrightarrow>
        p \<le> max (0 + i) (Suc c) \<Longrightarrow> l \<le> max (Suc (0 + i)) c \<Longrightarrow>
        min (d + (if s1 ! i = s2 ! c then 0 else 1)) (min (p + 1) (l + 1)) \<le> max (Suc (0 + i)) (Suc c)"
      by auto
  qed
  then have "last (lev_rows s1 s2 0 [0..<Suc (length s2)]) \<le> max (length s1) (length s2)"
    by (simp add: last_row del: upt_Suc)
  then show ?thesis by (simp add: levenshtein_distance_def del: upt_Suc)
qed

lemma levenshtein_distance_pos:
  assumes "s1 \<noteq> s2"
  shows "1 \<le> levenshtein_distance s1 s2"
proof -
  let ?rows = "lev_rows s1 s2 0 [0..<Suc (length s2)]"
  have inv: "length ?rows = Suc (length s2)
        \<and> (\<forall>c \<le> length s2. ?rows ! c = 0 \<longrightarrow> take (0 + length s1) s1 = take c s2)"
  proof (rule lev_rows_inv [where Q = "\<lambda>r c v. v = 0 \<longrightarrow> take r s1 = take c s2"])
    show "length [0..<Suc (length s2)] = Suc (length s2)" by simp
    show "\<forall>c \<le> length s2. [0..<Suc (length s2)] ! c = 0 \<longrightarrow> take 0 s1 = take c s2"
      by (simp add: lev_init_row del: upt_Suc)
    show "\<And>r. Suc r = 0 \<longrightarrow> take (Suc r) s1 = take 0 s2" by simp
    show "\<And>i c d p l :: nat. i < length s1 \<Longrightarrow> c < length s2 \<Longrightarrow> d = 0 \<longrightarrow> take (0 + i) s1 = take c s2 \<Longrightarrow>
        p = 0 \<longrightarrow> take (0 + i) s1 = take (Suc c) s2 \<Longrightarrow> l = 0 \<longrightarrow> take (Suc (0 + i)) s1 = take c s2 \<Longrightarrow>
        min (d + (if s1 ! i = s2 ! c then 0 else 1)) (min (p + 1) (l + 1)) = 0 \<longrightarrow>
        take (Suc (0 + i)) s1 = take (Suc c) s2"
    proof -
      fix i c d p l :: nat
      assume i: "i < length s1" and c: "c < length s2"
        and d: "d = 0 \<longrightarrow> take (0 + i) s1 = take c s2"
      show "min (d + (if s1 ! i = s2 ! c then 0 else 1)) (min (p + 1) (l + 1)) = 0 \<longrightarrow>
        take (Suc (0 + i)) s1 = take (Suc c) s2"
      proof
        assume "min (d + (if s1 ! i = s2 ! c then 0 else 1)) (min (p + 1) (l + 1)) = 0"
        then have d0: "d = 0" and eq: "s1 ! i = s2 ! c"
          by (auto simp: min_def split: if_splits)
        from d0 d have "take i s1 = take c s2" by simp
        then show "take (Suc (0 + i)) s1 = take (Suc c) s2"
          using i c eq by (simp add: take_Suc_conv_app_nth)
      qed
    qed
  qed
  have "last ?rows \<noteq> 0"
  proof
    assume "last ?rows = 0"
    then have "?rows ! length s2 = 0" using inv by (simp add: last_row del: upt_Suc)
    moreover have "?rows ! length s2 = 0 \<longrightarrow> take (0 + length s1) s1 = take (length s2) s2"
      using inv by blast
    ultimately have "take (length s1) s1 = take (length s2) s2" by simp
    then show False using assms by simp
  qed
  then show ?thesis using assms
    by (auto simp: levenshtein_distance_def Suc_le_eq simp del: upt_Suc)
qed

section \<open>Prosody feedback: the hints\<close>

text \<open>
  C3, as stated, fails: on an empty feature map and the target text \<open>any text\<close> the result
  is not the single low-volume hint. The missing \<open>duration\<close> key reads as 0, which is
  below 0.6 times the expected duration, so the slow-down hint comes first.
\<close>

theorem analyze_prosody_empty_not_single_hint:
  "analyze_prosody Mapping.empty (cps ''any text'') \<noteq> [''Speak with more volume and confidence'']"
  by (simp add: analyze_prosody_def cps_def Mapping.lookup_default_empty)

text \<open>
  C3, amended: on an empty feature map, a non-empty target text gets exactly two hints,
  the slow-down hint followed by the low-volume hint; the empty target text gets the
  low-volume hint alone.
\<close>

theorem analyze_prosody_empty_features:
  "analyze_prosody Mapping.empty target_text =
     (if target_text = [] then [''Speak with more volume and confidence'']
      else [''Slow down slightly to improve clarity and enunciation'',
            ''Speak with more volume and confidence''])"
  by (simp add: analyze_prosody_def Mapping.lookup_default_empty)

theorem analyze_prosody_empty_features_witness:
  "analyze_prosody Mapping.empty (cps ''any text'') =
     [''Slow down slightly to improve clarity and enunciation'',
      ''Speak with more volume and confidence'']"
  using analyze_prosody_empty_features [of "cps ''any text''"] by (simp add: cps_def)

text \<open>
  C7: for every feature map and target text the feedback is a rate part, then a volume
  part, then an articulation part, each of at most one hint of its own signal; so at
  most three hints, in that order.
\<close>

theorem analyze_prosody_order:
  "\<exists>rate volume articulation.
     analyze_prosody features target_text = rate @ volume @ articulation
     \<and> length rate \<le> 1 \<and> set rate \<subseteq> rate_hints
     \<and> length volume \<le> 1 \<and> set volume \<subseteq> volume_hints
     \<and> length articulation \<le> 1 \<and> set articulation \<subseteq> articulation_hints
     \<and> length (analyze_prosody features target_text) \<le> 3"
proof -
  define actual where "actual = Mapping.lookup_default 0 features ''duration''"
  define expected where "expected = real (length target_text) / 12"
  define rms where "rms = Mapping.lookup_default 0 features ''rms_energy''"
  define zcr where "zcr = Mapping.lookup_default 0 features ''zcr''"
  define rate where "rate =
    (if actual > expected * (3 / 2) then [''Try speaking a bit faster for more natural rhythm'']
     else if actual < expected * (6 / 10)
     then [''Slow down slightly to improve clarity and enunciation''] else [])"
  define volume where "volume =
    (if rms < 1 / 100 then [''Speak with more volume and confidence'']
     else if rms > 2 / 10 then [''Try to moderate your volume slightly''] else [])"
  define articulation where "articulation =
    (if zcr > 15 / 100 then [''Focus on clear articulation of consonants''] else [])"
  have eq: "analyze_prosody features target_text = rate @ volume @ articulation"
    unfolding analyze_prosody_def Let_def rate_def volume_def articulation_def
      actual_def expected_def rms_def zcr_def
    by simp
  have r: "length rate \<le> 1 \<and> set rate \<subseteq> rate_hints"
    by (simp add: rate_def rate_hints_def)
  have v: "length volume \<le> 1 \<and> set volume \<subseteq> volume_hints"
    by (simp add: volume_def volume_hints_def)
  have a: "length articulation \<le> 1 \<and> set articulation \<subseteq> articulation_hints"
    by (simp add: articulation_def articulation_hints_def)
  have "length (analyze_prosody features target_text) \<le> 3"
    using r v a by (simp add: eq)
  with eq r v a show ?thesis by blast
qed

theorem analyze_prosody_order_witness:
  "\<exists>rate volume articulation.
     analyze_prosody (Mapping.update ''zcr'' (2 / 10) (Mapping.update ''rms_energy'' (3 / 10)
        (Mapping.update ''duration'' 5 Mapping.empty)))
       (cps ''hello world'') = rate @ volume @ articulation
     \<and> length rate \<le> 1 \<and> set rate \<subseteq> rate_hints
     \<and> length volume \<le> 1 \<and> set volume \<subseteq> volume_hints
     \<and> length articulation \<le> 1 \<and> set articulation \<subseteq> articulation_hints
     \<and> length (analyze_prosody (Mapping.update ''zcr'' (2 / 10) (Mapping.update ''rms_energy'' (3 / 10)
        (Mapping.update ''duration'' 5 Mapping.empty)))
                  (cps ''hello world'')) \<le> 3"
  by (rule analyze_prosody_order)

section \<open>Feature extraction: failures and keys\<close>

lemma extract_audio_features_returns:
  "\<exists>out m. extract_audio_features lib audio_path = (out, Inr m)"
  by (auto simp: extract_audio_features_def split: sum.splits py_exception.splits)

lemma extract_audio_features_try_dom:
  "extract_audio_features_try lib audio_path = Inr m \<Longrightarrow>
     Mapping.keys m = {''rms_energy'', ''spectral_centroid'', ''zcr''}"
proof -
  assume "extract_audio_features_try lib audio_path = Inr m"
  then obtain rms centroid zcr where
    "m = Mapping.update ''zcr'' zcr (Mapping.update ''spectral_centroid'' centroid
           (Mapping.update ''rms_energy'' rms Mapping.empty))"
    by (auto simp: extract_audio_features_try_def split: sum.splits prod.splits)
  then show ?thesis by auto
qed

text \<open>
  C8: for every audio library and path the function returns a map and raises nothing;
  when the load, or any of the three computations on the loaded waveform, raises, the
  map it returns is empty.
\<close>

theorem extract_audio_features_never_raises:
  "(\<exists>m. snd (extract_audio_features lib audio_path) = Inr m)
   \<and> (((\<exists>e. load lib audio_path 16000 = Inl e)
        \<or> (\<exists>y sr e. load lib audio_path 16000 = Inr (y, sr)
              \<and> (rms_mean lib y = Inl e \<or> spectral_centroid_mean lib y sr = Inl e
                  \<or> zero_crossing_rate_mean lib y = Inl e)))
       \<longrightarrow> snd (extract_audio_features lib audio_path) = Inr Mapping.empty)"
proof (intro conjI impI)
  show "\<exists>m. snd (extract_audio_features lib audio_path) = Inr m"
    using extract_audio_features_returns [of lib audio_path] by auto
next
  assume fails: "(\<exists>e. load lib audio_path 16000 = Inl e)
        \<or> (\<exists>y sr e. load lib audio_path 16000 = Inr (y, sr)
              \<and> (rms_mean lib y = Inl e \<or> spectral_centroid_mean lib y sr = Inl e
                  \<or> zero_crossing_rate_mean lib y = Inl e))"
  then have "\<exists>e. extract_audio_features_try lib audio_path = Inl e"
    by (auto simp: extract_audio_features_try_def split: sum.splits)
  then show "snd (extract_audio_features lib audio_path) = Inr Mapping.empty"
    by (auto simp: extract_audio_features_def split: py_exception.splits)
qed

theorem extract_audio_features_never_raises_witness:
  "load unreadable_lib ''missing.wav'' 16000 = Inl (PyException ''No such file or directory'')
   \<and> extract_audio_features unreadable_lib ''missing.wav''
       = ([''Feature extraction error: No such file or directory''], Inr Mapping.empty)"
proof -
  have l: "load unreadable_lib ''missing.wav'' 16000 = Inl (PyException ''No such file or directory'')"
    by (simp add: unreadable_lib_def)
  have "snd (extract_audio_features unreadable_lib ''missing.wav'') = Inr Mapping.empty"
    using extract_audio_features_never_raises [of unreadable_lib "''missing.wav''"] l by blast
  moreover have "fst (extract_audio_features unreadable_lib ''missing.wav'')
      = [''Feature extraction error: No such file or directory'']"
    by (simp add: extract_audio_features_def extract_audio_features_try_def unreadable_lib_def)
  ultimately show ?thesis using l by (simp add: prod_eq_iff)
qed

text \<open>
  C9: the map the function returns never has the key \<open>duration\<close>: it is empty, or its
  keys are exactly \<open>rms_energy\<close>, \<open>spectral_centroid\<close> and \<open>zcr\<close>.
\<close>

theorem extract_audio_features_keys:
  assumes "snd (extract_audio_features lib audio_path) = Inr m"
  shows "Mapping.lookup m ''duration'' = None
         \<and> (Mapping.keys m = {}
              \<or> Mapping.keys m = {''rms_energy'', ''spectral_centroid'', ''zcr''})"
proof -
  have d: "Mapping.keys m = {}
           \<or> Mapping.keys m = {''rms_energy'', ''spectral_centroid'', ''zcr''}"
  proof (cases "extract_audio_features_try lib audio_path")
    case (Inl e)
    then have "m = Mapping.empty" using assms
      by (auto simp: extract_audio_features_def split: py_exception.splits)
    then show ?thesis by simp
  next
    case (Inr m')
    then have "m = m'" using assms by (simp add: extract_audio_features_def)
    then show ?thesis using extract_audio_features_try_dom [OF Inr] by simp
  qed
  have "''duration'' \<notin> {''rms_energy'', ''spectral_centroid'', ''zcr''}" by simp
  with d have "''duration'' \<notin> Mapping.keys m" by (elim disjE) simp_all
  then have "Mapping.lookup m ''duration'' = None" by (simp add: Mapping.keys_dom_lookup domIff)
  then show ?thesis using d by (rule conjI)
qed

theorem extract_audio_features_keys_witness:
  "snd (extract_audio_features readable_lib ''take1.wav'')
     = Inr (Mapping.update ''zcr'' (5 / 100 :: real) (Mapping.update ''spectral_centroid'' 1500
            (Mapping.update ''rms_energy'' (1 / 10) Mapping.empty)))
   \<and> (Mapping.lookup (Mapping.update ''zcr'' (5 / 100 :: real) (Mapping.update ''spectral_centroid'' 1500
            (Mapping.update ''rms_energy'' (1 / 10) Mapping.empty))) ''duration'' = None
      \<and> (Mapping.keys (Mapping.update ''zcr'' (5 / 100 :: real) (Mapping.update ''spectral_centroid'' 1500
            (Mapping.update ''rms_energy'' (1 / 10) Mapping.empty))) = {}
          \<or> Mapping.keys (Mapping.update ''zcr'' (5 / 100 :: real) (Mapping.update ''spectral_centroid'' 1500
            (Mapping.update ''rms_energy'' (1 / 10) Mapping.empty))) = {''rms_energy'', ''spectral_centroid'', ''zcr''}))"
proof -
  have r: "snd (extract_audio_features readable_lib ''take1.wav'')
     = Inr (Mapping.update ''zcr'' (5 / 100 :: real) (Mapping.update ''spectral_centroid'' 1500
            (Mapping.update ''rms_energy'' (1 / 10) Mapping.empty)))"
    by (simp add: extract_audio_features_def extract_audio_features_try_def readable_lib_def)
  show ?thesis by (rule conjI [OF r extract_audio_features_keys [OF r]])
qed

section \<open>The score: sub-scores and bounds\<close>

lemma calculate_advanced_score_eq:
  "calculate_advanced_score lower jw target_text transcription audio_features =
     (if normalized lower target_text = normalized lower transcription then 100
      else if words (normalized lower target_text) = [] then 0
      else min (py_int (final_score jw target_text (normalized lower target_text)
                          (normalized lower transcription) audio_features)) 100)"
  by (simp add: calculate_advanced_score_def Let_def)

lemma score_exact_match:
  "normalized lower target_text = normalized lower transcription \<Longrightarrow>
     calculate_advanced_score lower jw target_text transcription audio_features = 100"
  by (simp add: calculate_advanced_score_eq)

lemma word_score_bounds:
  assumes "target_words \<noteq> []"
  shows "0 \<le> word_score target_words transcribed_words"
    and "word_score target_words transcribed_words \<le> 100"
proof -
  have "card (set target_words \<inter> set transcribed_words) \<le> card (set target_words)"
    by (simp add: card_mono)
  also have "\<dots> \<le> length target_words" by (rule card_length)
  finally have le: "real (card (set target_words \<inter> set transcribed_words))
      \<le> real (length target_words)" by simp
  have pos: "0 < real (length target_words)" using assms by simp
  show "0 \<le> word_score target_words transcribed_words"
    by (simp add: word_score_def)
  define q where
    "q = real (card (set target_words \<inter> set transcribed_words)) / real (length target_words)"
  have "q \<le> 1" unfolding q_def using le pos by (simp add: divide_le_eq_1)
  moreover have "word_score target_words transcribed_words = q * 100"
    by (simp add: word_score_def q_def)
  ultimately show "word_score target_words transcribed_words \<le> 100" by simp
qed

lemma lev_score_eq:
  "lev_score a b =
     (if 0 < max (length a) (length b)
      then (1 - real (levenshtein_distance a b) / real (max (length a) (length b))) * 100
      else 0)"
  by (simp add: lev_score_def Let_def)

lemma lev_score_bounds:
  shows "0 \<le> lev_score a b" and "lev_score a b \<le> 100"
proof -
  define q where "q = real (levenshtein_distance a b) / real (max (length a) (length b))"
  have le: "real (levenshtein_distance a b) \<le> real (max (length a) (length b))"
    using levenshtein_distance_le_max [of a b] by (simp only: of_nat_le_iff)
  have q0: "0 \<le> q" by (simp add: q_def)
  have q1: "0 < max (length a) (length b) \<Longrightarrow> q \<le> 1"
    unfolding q_def using le by (simp only: divide_le_eq_1 of_nat_0_less_iff) simp
  have eq: "lev_score a b = (if 0 < max (length a) (length b) then (1 - q) * 100 else 0)"
    unfolding q_def by (rule lev_score_eq)
  show "0 \<le> lev_score a b" using q1 by (simp add: eq)
  show "lev_score a b \<le> 100" using q0 by (simp add: eq)
qed

lemma lev_score_less:
  assumes "a \<noteq> b"
  shows "lev_score a b < 100"
proof -
  have pos: "0 < max (length a) (length b)" using assms by (cases a; cases b) auto
  have "0 < real (levenshtein_distance a b)"
    using levenshtein_distance_pos [OF assms] by simp
  define q where "q = real (levenshtein_distance a b) / real (max (length a) (length b))"
  have "0 < q" unfolding q_def
    using pos \<open>0 < real (levenshtein_distance a b)\<close> by simp
  moreover have "lev_score a b = (1 - q) * 100"
    unfolding q_def using pos by (simp only: lev_score_eq if_True)
  ultimately show ?thesis by simp
qed

lemma prosody_score_bounds:
  shows "85 \<le> prosody_score target_text audio_features"
    and "prosody_score target_text audio_features \<le> 100"
  by (simp_all add: prosody_score_def Let_def)

lemma prosody_score_no_duration:
  "Mapping.lookup audio_features ''duration'' = None \<Longrightarrow>
     prosody_score target_text audio_features = 100"
  by (simp add: prosody_score_def Let_def Mapping.lookup_default_def)

lemma py_int_nonneg: "0 \<le> x \<Longrightarrow> 0 \<le> py_int x"
  by (simp add: py_int_def)

lemma py_int_less: "x < real_of_int n \<Longrightarrow> 0 < n \<Longrightarrow> py_int x < n"
  by (auto simp: py_int_def floor_less_iff ceiling_less_iff)

lemma py_int_ge: "real_of_int n \<le> x \<Longrightarrow> 0 \<le> n \<Longrightarrow> n \<le> py_int x"
  by (auto simp: py_int_def le_floor_iff)

lemma final_score_lower:
  assumes "words a \<noteq> []" and "0 \<le> jw a b"
  shows "51 / 4 \<le> final_score jw target_text a b audio_features"
proof -
  have w: "0 \<le> word_score (words a) (words b)" by (rule word_score_bounds [OF assms(1)])
  have l: "0 \<le> lev_score a b" by (rule lev_score_bounds)
  have p: "85 \<le> prosody_score target_text audio_features" by (rule prosody_score_bounds)
  show ?thesis using w l p assms(2) by (simp add: final_score_def)
qed

lemma final_score_upper:
  assumes "words a \<noteq> []" and "jw a b \<le> 1"
  shows "final_score jw target_text a b audio_features
         \<le> 80 + lev_score a b * (20 / 100)"
proof -
  have w: "word_score (words a) (words b) \<le> 100" by (rule word_score_bounds [OF assms(1)])
  have p: "prosody_score target_text audio_features \<le> 100" by (rule prosody_score_bounds)
  show ?thesis using w p assms(2) by (simp add: final_score_def)
qed

lemma final_score_less:
  assumes "words a \<noteq> []" and "jw a b \<le> 1" and "a \<noteq> b"
  shows "final_score jw target_text a b audio_features < 100"
  using final_score_upper [of a jw b target_text audio_features, OF assms(1,2)]
    lev_score_less [OF assms(3)]
  by simp

lemma score_less_100:
  assumes "normalized lower target_text \<noteq> normalized lower transcription"
    and "jw (normalized lower target_text) (normalized lower transcription) \<le> 1"
  shows "calculate_advanced_score lower jw target_text transcription audio_features < 100"
proof (cases "words (normalized lower target_text) = []")
  case True
  then show ?thesis using assms(1) by (simp add: calculate_advanced_score_eq)
next
  case False
  have "final_score jw target_text (normalized lower target_text)
          (normalized lower transcription) audio_features < real_of_int 100"
    using final_score_less [of "normalized lower target_text" jw "normalized lower transcription"
        target_text audio_features, OF False assms(2) assms(1)] by simp
  then have "py_int (final_score jw target_text (normalized lower target_text)
          (normalized lower transcription) audio_features) < 100"
    by (rule py_int_less) simp
  then show ?thesis using assms(1) False by (simp add: calculate_advanced_score_eq)
qed

lemma score_nonneg:
  assumes "0 \<le> jw (normalized lower target_text) (normalized lower transcription)"
  shows "0 \<le> calculate_advanced_score lower jw target_text transcription audio_features"
proof (cases "words (normalized lower target_text) = []")
  case True
  then show ?thesis by (simp add: calculate_advanced_score_eq)
next
  case False
  have "0 \<le> final_score jw target_text (normalized lower target_text)
          (normalized lower transcription) audio_features"
    using final_score_lower [of "normalized lower target_text" jw "normalized lower transcription"
        target_text audio_features, OF False assms] by simp
  then have "0 \<le> py_int (final_score jw target_text (normalized lower target_text)
          (normalized lower transcription) audio_features)"
    by (rule py_int_nonneg)
  then show ?thesis by (simp add: calculate_advanced_score_eq)
qed

lemma score_le_100:
  "calculate_advanced_score lower jw target_text transcription audio_features \<le> 100"
  by (simp add: calculate_advanced_score_eq)

section \<open>The score: the exact match and the range\<close>

lemmas str_eval = cps_def normalized_def lower_latin1_def strip_def isspace_def words_def
  replace_empty_def split_def

text \<open>
  C1: as long as the similarity of the two normalized strings is at most 1, the score is
  100 if and only if target and transcription are equal after \<open>lower()\<close> and \<open>strip()\<close>;
  when these forms differ, the score is below 100.
\<close>

theorem score_100_iff_exact_match:
  assumes "jw (normalized lower target_text) (normalized lower transcription) \<le> 1"
  shows "(calculate_advanced_score lower jw target_text transcription audio_features = 100
            \<longleftrightarrow> normalized lower target_text = normalized lower transcription)
         \<and> (normalized lower target_text \<noteq> normalized lower transcription
            \<longrightarrow> calculate_advanced_score lower jw target_text transcription audio_features < 100)"
proof -
  have lt: "normalized lower target_text \<noteq> normalized lower transcription \<Longrightarrow>
      calculate_advanced_score lower jw target_text transcription audio_features < 100"
    using score_less_100 [of lower target_text transcription jw audio_features] assms by simp
  have eq: "normalized lower target_text = normalized lower transcription \<Longrightarrow>
      calculate_advanced_score lower jw target_text transcription audio_features = 100"
    by (rule score_exact_match)
  show ?thesis using lt eq by fastforce
qed

theorem score_100_iff_exact_match_witness:
  "jaro_winkler_similarity (normalized lower_latin1 (cps ''Hello''))
       (normalized lower_latin1 (cps ''help'')) \<le> 1
   \<and> normalized lower_latin1 (cps ''Hello'') \<noteq> normalized lower_latin1 (cps ''help'')
   \<and> calculate_advanced_score lower_latin1 jaro_winkler_similarity (cps ''Hello'') (cps ''help'')
         Mapping.empty < 100
   \<and> calculate_advanced_score lower_latin1 jaro_winkler_similarity (cps ''Hello'') (cps ''help'')
         Mapping.empty \<noteq> 100"
proof -
  have n1: "normalized lower_latin1 (cps ''Hello'') = [104, 101, 108, 108, 111]"
    by (simp add: str_eval)
  have n2: "normalized lower_latin1 (cps ''help'') = [104, 101, 108, 112]"
    by (simp add: str_eval)
  have "jaro_winkler_similarity [104, 101, 108, 108, 111] [104, 101, 108, 112] = 509 / 600"
    by code_simp
  then have h: "jaro_winkler_similarity (normalized lower_latin1 (cps ''Hello''))
       (normalized lower_latin1 (cps ''help'')) \<le> 1"
    by (simp add: n1 n2)
  have d: "normalized lower_latin1 (cps ''Hello'') \<noteq> normalized lower_latin1 (cps ''help'')"
    by (simp add: n1 n2)
  show ?thesis
    using score_100_iff_exact_match [of jaro_winkler_similarity lower_latin1 "cps ''Hello''"
        "cps ''help''" Mapping.empty, OF h] h d
    by simp
qed

text \<open>
  C6: as long as the similarity of the two normalized strings is not negative, the score
  is an integer from 0 to 100, for every target, transcription and feature map.
\<close>

theorem score_in_range:
  assumes "0 \<le> jw (normalized lower target_text) (normalized lower transcription)"
  shows "0 \<le> calculate_advanced_score lower jw target_text transcription audio_features
         \<and> calculate_advanced_score lower jw target_text transcription audio_features \<le> 100"
  using score_nonneg [of jw lower target_text transcription audio_features] assms
    score_le_100 [of lower jw target_text transcription audio_features]
  by simp

theorem score_in_range_witness:
  "0 \<le> jaro_winkler_similarity (normalized lower_latin1 (cps ''Good morning''))
          (normalized lower_latin1 (cps ''god mourning''))
   \<and> 0 \<le> calculate_advanced_score lower_latin1 jaro_winkler_similarity (cps ''Good morning'')
            (cps ''god mourning'') (Mapping.update ''duration'' (- 3) Mapping.empty)
   \<and> calculate_advanced_score lower_latin1 jaro_winkler_similarity (cps ''Good morning'')
         (cps ''god mourning'') (Mapping.update ''duration'' (- 3) Mapping.empty) \<le> 100"
proof -
  have n1: "normalized lower_latin1 (cps ''Good morning'')
      = [103, 111, 111, 100, 32, 109, 111, 114, 110, 105, 110, 103]"
    by (simp add: str_eval)
  have n2: "normalized lower_latin1 (cps ''god mourning'')
      = [103, 111, 100, 32, 109, 111, 117, 114, 110, 105, 110, 103]"
    by (simp add: str_eval)
  have "0 \<le> jaro_winkler_similarity [103, 111, 111, 100, 32, 109, 111, 114, 110, 105, 110, 103]
          [103, 111, 100, 32, 109, 111, 117, 114, 110, 105, 110, 103]"
    by code_simp
  then have h: "0 \<le> jaro_winkler_similarity (normalized lower_latin1 (cps ''Good morning''))
          (normalized lower_latin1 (cps ''god mourning''))"
    by (simp only: n1 n2)
  show ?thesis
    using score_in_range [of jaro_winkler_similarity lower_latin1 "cps ''Good morning''"
        "cps ''god mourning''" "Mapping.update ''duration'' (- 3) Mapping.empty", OF h] h
    by simp
qed

text \<open>
  C10: the exact-match test comes before the zero-word test. Whenever the normalized
  strings are equal the score is 100, also when the target has no words: the target
  \<open>?\<close> against the transcription \<open> ? \<close> scores 100. So a score of 0 is returned only
  when the normalized strings differ.
\<close>

theorem exact_match_precedes_zero_words:
  "(normalized lower target_text = normalized lower transcription
      \<longrightarrow> calculate_advanced_score lower jw target_text transcription audio_features = 100)
   \<and> (calculate_advanced_score lower jw target_text transcription audio_features = 0
      \<longrightarrow> normalized lower target_text \<noteq> normalized lower transcription)
   \<and> words (normalized lower_latin1 (cps ''?'')) = []
   \<and> calculate_advanced_score lower_latin1 jw (cps ''?'') (cps '' ? '') audio_features = 100"
proof -
  have a: "normalized lower target_text = normalized lower transcription
      \<longrightarrow> calculate_advanced_score lower jw target_text transcription audio_features = 100"
    by (simp add: score_exact_match)
  have b: "calculate_advanced_score lower jw target_text transcription audio_features = 0
      \<longrightarrow> normalized lower target_text \<noteq> normalized lower transcription"
    using a by auto
  have c: "words (normalized lower_latin1 (cps ''?'')) = []"
    by (simp add: str_eval)
  have "normalized lower_latin1 (cps ''?'') = normalized lower_latin1 (cps '' ? '')"
    by (simp add: str_eval)
  then have d: "calculate_advanced_score lower_latin1 jw (cps ''?'') (cps '' ? '') audio_features = 100"
    by (rule score_exact_match)
  show ?thesis using a b c d by blast
qed

theorem exact_match_precedes_zero_words_witness:
  "normalized lower_latin1 (cps ''?'') = normalized lower_latin1 (cps '' ? '')
   \<and> words (normalized lower_latin1 (cps ''?'')) = []
   \<and> calculate_advanced_score lower_latin1 jaro_winkler_similarity (cps ''?'') (cps '' ? '')
        Mapping.empty = 100"
proof -
  have e: "normalized lower_latin1 (cps ''?'') = normalized lower_latin1 (cps '' ? '')"
    by (simp add: str_eval)
  show ?thesis
    using exact_match_precedes_zero_words [of lower_latin1 "cps ''?''" "cps '' ? ''"
        jaro_winkler_similarity Mapping.empty] e
    by blast
qed

section \<open>The score: empty target, empty transcription\<close>

lemma normalized_empty: "lower [] = [] \<Longrightarrow> normalized lower [] = []"
  by (simp add: normalized_def strip_def)

lemma words_empty: "words [] = []"
  by (simp add: words_def replace_empty_def split_def)

text \<open>
  C4, as stated, fails: with the empty target and the empty transcription the score is
  100, not 0, since the two normalized strings are equal.
\<close>

theorem empty_target_counterexample:
  "calculate_advanced_score lower_latin1 jaro_winkler_similarity [] [] Mapping.empty \<noteq> 0"
proof -
  have "calculate_advanced_score lower_latin1 jaro_winkler_similarity [] [] Mapping.empty = 100"
    by (rule score_exact_match) simp
  then show ?thesis by simp
qed

text \<open>
  C4, amended: with the empty target (and a \<open>lower\<close> that keeps the empty string empty)
  the score is 0 for every transcription whose normalized form is not empty, and 100 for
  a transcription that is empty or white space only.
\<close>

theorem empty_target_score:
  assumes "lower [] = []"
  shows "calculate_advanced_score lower jw [] transcription audio_features =
           (if normalized lower transcription = [] then 100 else 0)"
  using normalized_empty [of lower] assms by (auto simp: calculate_advanced_score_eq words_empty)

theorem empty_target_score_witness:
  "lower_latin1 [] = []
   \<and> calculate_advanced_score lower_latin1 jaro_winkler_similarity [] (cps ''hello'') Mapping.empty = 0
   \<and> calculate_advanced_score lower_latin1 jaro_winkler_similarity [] (cps ''  '') Mapping.empty = 100"
proof -
  have l: "lower_latin1 [] = []" by (simp add: lower_latin1_def)
  have a: "normalized lower_latin1 (cps ''hello'') \<noteq> []" by (simp add: str_eval)
  have b: "normalized lower_latin1 (cps ''  '') = []" by (simp add: str_eval)
  show ?thesis
    using empty_target_score [of lower_latin1 jaro_winkler_similarity "cps ''hello''" Mapping.empty]
      empty_target_score [of lower_latin1 jaro_winkler_similarity "cps ''  ''" Mapping.empty] l a b
    by simp
qed

section \<open>The score: two concrete scenarios\<close>

lemma levenshtein_distance_empty_right: "levenshtein_distance a [] = length a"
  by (cases a) (simp_all add: levenshtein_distance_def)

lemma lev_score_empty_right: "lev_score a [] = 0"
  by (cases a) (simp_all add: lev_score_eq levenshtein_distance_empty_right)

lemma word_score_no_transcribed_words: "word_score target_words [] = 0"
  by (simp add: word_score_def)

text \<open>
  C5: when the target has at least one word and the normalized transcription is empty,
  the word sub-score is 0 and yet the score is at least 12, for every feature map and
  every non-negative similarity value. For the target \<open>hello world\<close>, the empty
  transcription and the empty feature map, the score is between 15 and 40 for every
  similarity value between 0 and 1.
\<close>

theorem empty_transcription_score:
  "(words (normalized lower target_text) \<noteq> [] \<and> normalized lower transcription = []
      \<and> 0 \<le> jw (normalized lower target_text) []
      \<longrightarrow> word_score (words (normalized lower target_text))
             (words (normalized lower transcription)) = 0
          \<and> 12 \<le> calculate_advanced_score lower jw target_text transcription audio_features)
   \<and> (0 \<le> jw (cps ''hello world'') [] \<and> jw (cps ''hello world'') [] \<le> 1
      \<longrightarrow> 15 \<le> calculate_advanced_score lower_latin1 jw (cps ''hello world'') [] Mapping.empty
          \<and> calculate_advanced_score lower_latin1 jw (cps ''hello world'') [] Mapping.empty \<le> 40)"
proof (intro conjI impI)
  assume h: "words (normalized lower target_text) \<noteq> [] \<and> normalized lower transcription = []
      \<and> 0 \<le> jw (normalized lower target_text) []"
  define a where "a = normalized lower target_text"
  have w: "words a \<noteq> []" and e: "normalized lower transcription = []" and j: "0 \<le> jw a []"
    using h by (simp_all add: a_def)
  have ne: "a \<noteq> []" using w words_empty by auto
  show "word_score (words (normalized lower target_text))
          (words (normalized lower transcription)) = 0"
    by (simp add: e words_empty word_score_no_transcribed_words)
  have p: "85 \<le> prosody_score target_text audio_features" by (rule prosody_score_bounds)
  have "final_score jw target_text a [] audio_features
      = jw a [] * 25 + prosody_score target_text audio_features * (15 / 100)"
    by (simp add: final_score_def words_empty word_score_no_transcribed_words lev_score_empty_right)
  then have "real_of_int 12 \<le> final_score jw target_text a [] audio_features"
    using p j by simp
  then have "12 \<le> py_int (final_score jw target_text a [] audio_features)"
    by (rule py_int_ge) simp
  then show "12 \<le> calculate_advanced_score lower jw target_text transcription audio_features"
    using w ne e by (simp add: calculate_advanced_score_eq a_def [symmetric])
next
  assume h: "0 \<le> jw (cps ''hello world'') [] \<and> jw (cps ''hello world'') [] \<le> 1"
  define a where "a = cps ''hello world''"
  have n1: "normalized lower_latin1 (cps ''hello world'') = a"
    by (simp add: str_eval a_def)
  have n2: "normalized lower_latin1 [] = []"
    by (simp add: str_eval)
  have w: "words a \<noteq> []" by (simp add: str_eval a_def)
  have ne: "a \<noteq> []" by (simp add: a_def cps_def)
  have p: "prosody_score (cps ''hello world'') Mapping.empty = 100"
    by (simp add: prosody_score_def)
  have f: "final_score jw (cps ''hello world'') a [] Mapping.empty = jw a [] * 25 + 15"
    by (simp add: final_score_def words_empty word_score_no_transcribed_words
        lev_score_empty_right p)
  have j: "0 \<le> jw a []" "jw a [] \<le> 1" using h by (simp_all add: a_def)
  have "real_of_int 15 \<le> final_score jw (cps ''hello world'') a [] Mapping.empty"
    using j by (simp add: f)
  then have lo: "15 \<le> py_int (final_score jw (cps ''hello world'') a [] Mapping.empty)"
    by (rule py_int_ge) simp
  have "final_score jw (cps ''hello world'') a [] Mapping.empty < real_of_int 41"
    using j by (simp add: f)
  then have hi: "py_int (final_score jw (cps ''hello world'') a [] Mapping.empty) < 41"
    by (rule py_int_less) simp
  have s: "calculate_advanced_score lower_latin1 jw (cps ''hello world'') [] Mapping.empty
      = min (py_int (final_score jw (cps ''hello world'') a [] Mapping.empty)) 100"
    using w ne by (simp add: calculate_advanced_score_eq n1 n2)
  show "15 \<le> calculate_advanced_score lower_latin1 jw (cps ''hello world'') [] Mapping.empty"
    using lo by (simp add: s)
  show "calculate_advanced_score lower_latin1 jw (cps ''hello world'') [] Mapping.empty \<le> 40"
    using hi by (simp add: s)
qed

theorem empty_transcription_score_witness:
  "words (normalized lower_latin1 (cps ''hello world'')) \<noteq> []
   \<and> normalized lower_latin1 [] = []
   \<and> jaro_winkler_similarity (cps ''hello world'') [] = 0
   \<and> word_score (words (normalized lower_latin1 (cps ''hello world'')))
         (words (normalized lower_latin1 [])) = 0
   \<and> 15 \<le> calculate_advanced_score lower_latin1 jaro_winkler_similarity (cps ''hello world'') []
              Mapping.empty
   \<and> calculate_advanced_score lower_latin1 jaro_winkler_similarity (cps ''hello world'') []
         Mapping.empty \<le> 40"
proof -
  have n1: "normalized lower_latin1 (cps ''hello world'') = cps ''hello world''"
    by (simp add: str_eval)
  have n2: "normalized lower_latin1 [] = []"
    by (simp add: str_eval)
  have w: "words (normalized lower_latin1 (cps ''hello world'')) \<noteq> []"
    by (simp add: str_eval)
  have j: "jaro_winkler_similarity (cps ''hello world'') [] = 0"
    by (simp add: jaro_winkler_similarity_def)
  show ?thesis
    using empty_transcription_score [of lower_latin1 "cps ''hello world''" "[]"
        jaro_winkler_similarity Mapping.empty] n1 n2 w j
    by simp
qed

lemma como_estas_target_lower:
  "normalized lower_latin1 como_estas_target
     = [191, 99, 243, 109, 111, 32, 101, 115, 116, 225, 115, 32, 104, 111, 121, 63]"
  by (simp add: str_eval como_estas_target_def)

lemma como_estas_transcription_lower:
  "normalized lower_latin1 como_estas_transcription
     = [99, 111, 109, 111, 32, 101, 115, 116, 97, 115, 32, 104, 111, 121]"
  by (simp add: str_eval como_estas_transcription_def)

lemma como_estas_target_words:
  "words [191, 99, 243, 109, 111, 32, 101, 115, 116, 225, 115, 32, 104, 111, 121, 63]
     = [[99, 243, 109, 111], [101, 115, 116, 225, 115], [104, 111, 121]]"
  by (simp add: str_eval)

lemma como_estas_transcription_words:
  "words [99, 111, 109, 111, 32, 101, 115, 116, 97, 115, 32, 104, 111, 121]
     = [[99, 111, 109, 111], [101, 115, 116, 97, 115], [104, 111, 121]]"
  by (simp add: str_eval)

lemma como_estas_word_score:
  "word_score [[99, 243, 109, 111], [101, 115, 116, 225, 115], [104, 111, 121]]
     [[99, 111, 109, 111], [101, 115, 116, 97, 115], [104, 111, 121]] = 100 / 3"
  by (simp add: word_score_def)

lemma como_estas_levenshtein:
  "levenshtein_distance
     [191, 99, 243, 109, 111, 32, 101, 115, 116, 225, 115, 32, 104, 111, 121, 63]
     [99, 111, 109, 111, 32, 101, 115, 116, 97, 115, 32, 104, 111, 121] = 4"
  by code_simp

lemma como_estas_lev_score:
  "lev_score [191, 99, 243, 109, 111, 32, 101, 115, 116, 225, 115, 32, 104, 111, 121, 63]
     [99, 111, 109, 111, 32, 101, 115, 116, 97, 115, 32, 104, 111, 121] = 75"
  by (simp add: lev_score_eq como_estas_levenshtein)

lemma como_estas_jaro_winkler:
  "jaro_winkler_similarity
     [191, 99, 243, 109, 111, 32, 101, 115, 116, 225, 115, 32, 104, 111, 121, 63]
     [99, 111, 109, 111, 32, 101, 115, 116, 97, 115, 32, 104, 111, 121] = 53 / 63"
  by code_simp

lemma como_estas_final_score:
  assumes "Mapping.lookup audio_features ''duration'' = None"
  shows "final_score jw como_estas_target
           [191, 99, 243, 109, 111, 32, 101, 115, 116, 225, 115, 32, 104, 111, 121, 63]
           [99, 111, 109, 111, 32, 101, 115, 116, 97, 115, 32, 104, 111, 121] audio_features
         = 130 / 3
           + jw [191, 99, 243, 109, 111, 32, 101, 115, 116, 225, 115, 32, 104, 111, 121, 63]
                [99, 111, 109, 111, 32, 101, 115, 116, 97, 115, 32, 104, 111, 121] * 25"
  by (simp add: final_score_def como_estas_target_words como_estas_transcription_words
      como_estas_word_score como_estas_lev_score prosody_score_no_duration [OF assms])

lemma como_estas_score_eq:
  assumes "Mapping.lookup audio_features ''duration'' = None"
  shows "calculate_advanced_score lower_latin1 jw como_estas_target como_estas_transcription
           audio_features
         = min (py_int (130 / 3
             + jw [191, 99, 243, 109, 111, 32, 101, 115, 116, 225, 115, 32, 104, 111, 121, 63]
                  [99, 111, 109, 111, 32, 101, 115, 116, 97, 115, 32, 104, 111, 121] * 25)) 100"
  by (simp add: calculate_advanced_score_eq como_estas_target_lower
      como_estas_transcription_lower como_estas_target_words como_estas_final_score [OF assms])

lemma como_estas_score_64:
  "calculate_advanced_score lower_latin1 jaro_winkler_similarity como_estas_target
     como_estas_transcription Mapping.empty = 64"
proof -
  have "(130 / 3 + 53 / 63 * 25 :: real) = 4055 / 63" by simp
  moreover have "\<lfloor>4055 / 63 :: real\<rfloor> = 64" by simp
  ultimately show ?thesis
    by (simp add: como_estas_score_eq como_estas_jaro_winkler py_int_def)
qed

text \<open>
  C2, as stated, fails: the accented words of the target are not among the words of the
  transcription, so the word sub-score is not 100, and the score, 64, is not above 80.
\<close>

theorem como_estas_counterexample:
  "\<not> (word_score (words (normalized lower_latin1 como_estas_target))
          (words (normalized lower_latin1 como_estas_transcription)) = 100
       \<and> 80 < calculate_advanced_score lower_latin1 jaro_winkler_similarity como_estas_target
                como_estas_transcription Mapping.empty
       \<and> calculate_advanced_score lower_latin1 jaro_winkler_similarity como_estas_target
            como_estas_transcription Mapping.empty < 100)"
  by (simp add: como_estas_score_64)

text \<open>
  C2, amended: for this target and transcription and any feature map without a
  \<open>duration\<close> key, one of the three target words (\<open>hoy\<close>) is among the transcription's
  words, the word sub-score is 100/3, and the score is between 43 and 68 for every
  similarity value between 0 and 1.
\<close>

theorem como_estas_score:
  assumes "Mapping.lookup audio_features ''duration'' = None"
    and "0 \<le> jw (normalized lower_latin1 como_estas_target)
                 (normalized lower_latin1 como_estas_transcription)"
    and "jw (normalized lower_latin1 como_estas_target)
            (normalized lower_latin1 como_estas_transcription) \<le> 1"
  shows "set (words (normalized lower_latin1 como_estas_target))
           \<inter> set (words (normalized lower_latin1 como_estas_transcription)) = {cps ''hoy''}
         \<and> word_score (words (normalized lower_latin1 como_estas_target))
             (words (normalized lower_latin1 como_estas_transcription)) = 100 / 3
         \<and> 43 \<le> calculate_advanced_score lower_latin1 jw como_estas_target
                   como_estas_transcription audio_features
         \<and> calculate_advanced_score lower_latin1 jw como_estas_target
              como_estas_transcription audio_features \<le> 68"
proof -
  define x where "x = jw [191, 99, 243, 109, 111, 32, 101, 115, 116, 225, 115, 32, 104, 111, 121, 63]
      [99, 111, 109, 111, 32, 101, 115, 116, 97, 115, 32, 104, 111, 121]"
  have x: "0 \<le> x" "x \<le> 1"
    using assms(2,3)
    by (simp_all only: como_estas_target_lower como_estas_transcription_lower x_def)
  have s: "calculate_advanced_score lower_latin1 jw como_estas_target como_estas_transcription
      audio_features = min (py_int (130 / 3 + x * 25)) 100"
    unfolding x_def by (rule como_estas_score_eq [OF assms(1)])
  have "real_of_int 43 \<le> 130 / 3 + x * 25" using x by simp
  then have lo: "43 \<le> py_int (130 / 3 + x * 25)" by (rule py_int_ge) simp
  have "130 / 3 + x * 25 < real_of_int 69" using x by simp
  then have hi: "py_int (130 / 3 + x * 25) < 69" by (rule py_int_less) simp
  have i: "set (words (normalized lower_latin1 como_estas_target))
      \<inter> set (words (normalized lower_latin1 como_estas_transcription)) = {cps ''hoy''}"
    by (simp add: como_estas_target_lower como_estas_transcription_lower
        como_estas_target_words como_estas_transcription_words cps_def)
  have w: "word_score (words (normalized lower_latin1 como_estas_target))
      (words (normalized lower_latin1 como_estas_transcription)) = 100 / 3"
    by (simp add: como_estas_target_lower como_estas_transcription_lower
        como_estas_target_words como_estas_transcription_words como_estas_word_score)
  show ?thesis using i w lo hi by (simp add: s)
qed

theorem como_estas_score_witness:
  "Mapping.lookup (Mapping.empty :: features) ''duration'' = None
   \<and> jaro_winkler_similarity (normalized lower_latin1 como_estas_target)
        (normalized lower_latin1 como_estas_transcription) = 53 / 63
   \<and> word_score (words (normalized lower_latin1 como_estas_target))
        (words (normalized lower_latin1 como_estas_transcription)) = 100 / 3
   \<and> 43 \<le> calculate_advanced_score lower_latin1 jaro_winkler_similarity como_estas_target
             como_estas_transcription Mapping.empty
   \<and> calculate_advanced_score lower_latin1 jaro_winkler_similarity como_estas_target
        como_estas_transcription Mapping.empty \<le> 68"
proof -
  have d: "Mapping.lookup (Mapping.empty :: features) ''duration'' = None" by simp
  have j: "jaro_winkler_similarity (normalized lower_latin1 como_estas_target)
      (normalized lower_latin1 como_estas_transcription) = 53 / 63"
    by (simp only: como_estas_target_lower como_estas_transcription_lower
        como_estas_jaro_winkler)
  have j0: "0 \<le> jaro_winkler_similarity (normalized lower_latin1 como_estas_target)
      (normalized lower_latin1 como_estas_transcription)"
    by (simp add: j)
  have j1: "jaro_winkler_similarity (normalized lower_latin1 como_estas_target)
      (normalized lower_latin1 como_estas_transcription) \<le> 1"
    by (simp add: j)
  show ?thesis
    using como_estas_score [of Mapping.empty jaro_winkler_similarity, OF d j0 j1] d j
    by simp
qed

section \<open>The range of the Jaro-Winkler similarity\<close>

text \<open>
  The library's algorithm stays between 0 and 1 on every pair of strings, so the
  hypotheses on \<open>jw\<close> above hold for it at every input.
\<close>

lemma jaro_match_length:
  "length (fst (jaro_match cs s2 i search_range s2_flags)) = length cs"
  by (induction cs arbitrary: i s2_flags)
    (simp_all add: case_prod_beta del: upt_Suc split: option.splits)

lemma find_Some_member: "find P xs = Some x \<Longrightarrow> x \<in> set xs \<and> P x"
  by (induction xs) (auto split: if_splits)

lemma count_flag_update:
  "j < length flags \<Longrightarrow> \<not> flags ! j \<Longrightarrow>
     length (filter id (flags[j := True])) = Suc (length (filter id flags))"
proof (induction flags arbitrary: j)
  case Nil
  then show ?case by simp
next
  case (Cons b flags)
  then show ?case by (cases j) auto
qed

lemma jaro_match_count:
  assumes "s2 \<noteq> []" and "length s2_flags = length s2"
  shows "length (snd (jaro_match cs s2 i search_range s2_flags)) = length s2
         \<and> length (filter id (snd (jaro_match cs s2 i search_range s2_flags)))
             = length (filter id s2_flags)
               + length (filter id (fst (jaro_match cs s2 i search_range s2_flags)))"
  using assms(2)
proof (induction cs arbitrary: i s2_flags)
  case Nil
  then show ?case by simp
next
  case (Cons ch cs)
  let ?cand = "[i - search_range ..< Suc (min (i + search_range) (length s2 - 1))]"
  show ?case
  proof (cases "find (\<lambda>j. \<not> s2_flags ! j \<and> s2 ! j = ch) ?cand")
    case None
    then show ?thesis using Cons.IH [OF Cons.prems, of "Suc i"]
      by (simp add: case_prod_beta del: upt_Suc)
  next
    case (Some j)
    then have "j \<in> set ?cand" and free: "\<not> s2_flags ! j"
      using find_Some_member [OF Some] by blast+
    then have "j \<le> length s2 - 1" by (auto simp del: upt_Suc)
    then have j: "j < length s2_flags" using assms(1) Cons.prems by (cases s2) auto
    have len: "length (s2_flags[j := True]) = length s2" using Cons.prems by simp
    show ?thesis
      using Cons.IH [OF len, of "Suc i"] Some count_flag_update [OF j free]
      by (simp add: case_prod_beta id_def del: upt_Suc)
  qed
qed

lemma flagged_length_le: "length (flagged s flags) \<le> length (filter id flags)"
  unfolding flagged_def
proof (induction flags arbitrary: s)
  case Nil
  then show ?case by simp
next
  case (Cons b flags)
  then show ?case by (cases s) (auto intro: le_SucI)
qed

lemma jaro_weight_range:
  fixes m t l1 l2 :: nat
  assumes "0 < m" and "m \<le> l1" and "m \<le> l2" and "t \<le> m"
  shows "0 \<le> (real m / real l1 + real m / real l2 + (real m - real t) / real m) / 3"
    and "(real m / real l1 + real m / real l2 + (real m - real t) / real m) / 3 \<le> 1"
proof -
  have a: "0 \<le> real m / real l1" "real m / real l1 \<le> 1"
    using assms by (simp_all add: divide_le_eq_1)
  have b: "0 \<le> real m / real l2" "real m / real l2 \<le> 1"
    using assms by (simp_all add: divide_le_eq_1)
  have c: "0 \<le> (real m - real t) / real m" "(real m - real t) / real m \<le> 1"
    using assms by (simp_all add: divide_le_eq_1)
  show "0 \<le> (real m / real l1 + real m / real l2 + (real m - real t) / real m) / 3"
    using a b c by simp
  show "(real m / real l1 + real m / real l2 + (real m - real t) / real m) / 3 \<le> 1"
    using a b c by simp
qed

lemma winkler_boost_range:
  fixes w :: real and i :: nat
  assumes "0 \<le> w" and "w \<le> 1" and "i \<le> 4"
  shows "0 \<le> w + real i * (1 / 10) * (1 - w)" and "w + real i * (1 / 10) * (1 - w) \<le> 1"
proof -
  define c where "c = real i * (1 / 10)"
  have c: "0 \<le> c" "c \<le> 1" using assms(3) by (simp_all add: c_def)
  have "0 \<le> c * (1 - w)" using c assms by simp
  then show "0 \<le> w + real i * (1 / 10) * (1 - w)" using assms by (simp add: c_def)
  have "c * (1 - w) \<le> 1 * (1 - w)" using c assms by (intro mult_right_mono) simp_all
  then show "w + real i * (1 / 10) * (1 - w) \<le> 1" by (simp add: c_def)
qed

lemma jaro_winkler_similarity_range:
  "0 \<le> jaro_winkler_similarity s1 s2 \<and> jaro_winkler_similarity s1 s2 \<le> 1"
proof (cases "s1 = [] \<or> s2 = []")
  case True
  then show ?thesis by (simp add: jaro_winkler_similarity_def)
next
  case False
  define search_range where "search_range = max (length s1) (length s2) div 2 - 1"
  define r where "r = jaro_match s1 s2 0 search_range (replicate (length s2) False)"
  define m where "m = length (filter id (fst r))"
  define t where "t = length (filter (\<lambda>(a, b). a \<noteq> b)
      (zip (flagged s1 (fst r)) (flagged s2 (snd r)))) div 2"
  define w where "w = (real m / real (length s1) + real m / real (length s2)
      + (real m - real t) / real m) / 3"
  define i where "i = length (takeWhile (\<lambda>(a, b). a = b)
      (take (min (min (length s1) (length s2)) 4) (zip s1 s2)))"
  have eq: "jaro_winkler_similarity s1 s2 =
      (if m = 0 then 0 else if w > 7 / 10 then w + real i * (1 / 10) * (1 - w) else w)"
    unfolding jaro_winkler_similarity_def Let_def case_prod_beta
      w_def i_def t_def m_def r_def search_range_def
    using False by (simp only: if_False)
  show ?thesis
  proof (cases "m = 0")
    case True
    then show ?thesis by (simp add: eq)
  next
    case m0: False
    have m1: "m \<le> length s1"
      using jaro_match_length [of s1 s2 0 search_range "replicate (length s2) False"]
        length_filter_le [of id "fst r"]
      by (simp add: m_def r_def)
    have cnt: "length (snd r) = length s2
        \<and> length (filter id (snd r)) = length (filter id (replicate (length s2) False)) + m"
      unfolding r_def m_def using False by (intro jaro_match_count) simp_all
    have "length (filter id (snd r)) \<le> length (snd r)" by (rule length_filter_le)
    then have m2: "m \<le> length s2" using cnt by simp
    have "t \<le> length (filter (\<lambda>(a, b). a \<noteq> b)
        (zip (flagged s1 (fst r)) (flagged s2 (snd r))))"
      unfolding t_def by (rule div_le_dividend)
    also have "\<dots> \<le> length (zip (flagged s1 (fst r)) (flagged s2 (snd r)))"
      by (rule length_filter_le)
    also have "\<dots> \<le> length (flagged s1 (fst r))" by simp
    also have "\<dots> \<le> m" unfolding m_def by (rule flagged_length_le)
    finally have tm: "t \<le> m" .
    have w: "0 \<le> w" "w \<le> 1"
      unfolding w_def using jaro_weight_range [of m "length s1" "length s2" t] m0 m1 m2 tm
      by simp_all
    have "i \<le> length (take (min (min (length s1) (length s2)) 4) (zip s1 s2))"
      unfolding i_def by (rule length_takeWhile_le)
    then have i: "i \<le> 4" by simp
    show ?thesis
      using w winkler_boost_range [OF w i] m0 by (simp add: eq)
  qed
qed

lemma score_in_range_jaro_winkler:
  "0 \<le> calculate_advanced_score lower jaro_winkler_similarity target_text transcription
          audio_features
   \<and> calculate_advanced_score lower jaro_winkler_similarity target_text transcription
        audio_features \<le> 100"
  using score_nonneg [of jaro_winkler_similarity lower target_text transcription audio_features]
    score_le_100 [of lower jaro_winkler_similarity target_text transcription audio_features]
    jaro_winkler_similarity_range
  by simp

lemma score_100_iff_jaro_winkler:
  "calculate_advanced_score lower jaro_winkler_similarity target_text transcription
     audio_features = 100
   \<longleftrightarrow> normalized lower target_text = normalized lower transcription"
  using score_less_100 [of lower target_text transcription jaro_winkler_similarity audio_features]
    score_exact_match [of lower target_text transcription jaro_winkler_similarity audio_features]
    jaro_winkler_similarity_range
  by fastforce

end
